theory Spec2Isabelle
  imports Main
begin

section \<open>Python strings\<close>

text \<open>
  A Python \<^verbatim>\<open>str\<close> is a sequence of Unicode code points; it is modelled as a list of
  natural numbers, one per code point. \<open>str\<close> turns an ASCII literal into such a list.
  The decorations the program prints are single code points: U+26A0 (warning sign),
  U+274C (cross mark), U+2705 (check mark).
\<close>

type_synonym pystr = "nat list"

definition str :: "string \<Rightarrow> pystr" where
  "str s = map of_char s"

definition warning_sign :: pystr where
  "warning_sign = [9888]"

definition cross_mark :: pystr where
  "cross_mark = [10060]"

definition check_mark :: pystr where
  "check_mark = [9989]"

text \<open>
  \<^verbatim>\<open>str.strip()\<close> without argument removes leading and trailing whitespace. The
  whitespace code points are those of CPython's \<^verbatim>\<open>Py_UNICODE_ISSPACE\<close>.
\<close>

definition is_space :: "nat \<Rightarrow> bool" where
  "is_space c \<longleftrightarrow>
     (9 \<le> c \<and> c \<le> 13) \<or> (28 \<le> c \<and> c \<le> 32) \<or> c = 133 \<or> c = 160 \<or> c = 5760 \<or>
     (8192 \<le> c \<and> c \<le> 8202) \<or> c = 8232 \<or> c = 8233 \<or> c = 8239 \<or> c = 8287 \<or> c = 12288"

definition lstrip :: "pystr \<Rightarrow> pystr" where
  "lstrip s = dropWhile is_space s"

definition rstrip :: "pystr \<Rightarrow> pystr" where
  "rstrip s = rev (dropWhile is_space (rev s))"

definition strip :: "pystr \<Rightarrow> pystr" where
  "strip s = rstrip (lstrip s)"

text \<open>
  \<^verbatim>\<open>str.lower()\<close> and \<^verbatim>\<open>str.title()\<close>. On a string of ASCII code points they are
  computed here: \<^verbatim>\<open>lower\<close> maps A to Z onto a to z; \<^verbatim>\<open>title\<close> lower-cases a code
  point that follows a letter and upper-cases any other. On a string with a code point
  above 127 Python follows the Unicode character database, which is not part of the
  repository: what \<^verbatim>\<open>str.lower\<close> and \<^verbatim>\<open>str.title\<close> return for such strings is a
  parameter (\<open>ul\<close>, \<open>ut\<close>) of every function that calls them.
\<close>

definition is_ascii :: "pystr \<Rightarrow> bool" where
  "is_ascii s \<longleftrightarrow> list_all (\<lambda>c. c < 128) s"

definition is_ascii_upper :: "nat \<Rightarrow> bool" where
  "is_ascii_upper c \<longleftrightarrow> 65 \<le> c \<and> c \<le> 90"

definition is_ascii_lower :: "nat \<Rightarrow> bool" where
  "is_ascii_lower c \<longleftrightarrow> 97 \<le> c \<and> c \<le> 122"

definition is_ascii_cased :: "nat \<Rightarrow> bool" where
  "is_ascii_cased c \<longleftrightarrow> is_ascii_upper c \<or> is_ascii_lower c"

definition ascii_lower :: "nat \<Rightarrow> nat" where
  "ascii_lower c = (if is_ascii_upper c then c + 32 else c)"

definition ascii_upper :: "nat \<Rightarrow> nat" where
  "ascii_upper c = (if is_ascii_lower c then c - 32 else c)"

definition lower :: "(pystr \<Rightarrow> pystr) \<Rightarrow> pystr \<Rightarrow> pystr" where
  "lower ul s = (if is_ascii s then map ascii_lower s else ul s)"

fun ascii_title_from :: "bool \<Rightarrow> pystr \<Rightarrow> pystr" where
  "ascii_title_from prev [] = []"
| "ascii_title_from prev (c # cs) =
     (if prev then ascii_lower c else ascii_upper c) # ascii_title_from (is_ascii_cased c) cs"

definition title :: "(pystr \<Rightarrow> pystr) \<Rightarrow> pystr \<Rightarrow> pystr" where
  "title ut s = (if is_ascii s then ascii_title_from False s else ut s)"

text \<open>
  \<^verbatim>\<open>s.replace(old, new)\<close> where both arguments are one character long, and
  \<^verbatim>\<open>s.split(sep)\<close> for a one-character separator: the pieces between the separators,
  empty pieces included, so the result is never the empty list.
\<close>

definition replace1 :: "nat \<Rightarrow> nat \<Rightarrow> pystr \<Rightarrow> pystr" where
  "replace1 old new s = map (\<lambda>c. if c = old then new else c) s"

fun split :: "nat \<Rightarrow> pystr \<Rightarrow> pystr list" where
  "split sep [] = [[]]"
| "split sep (c # cs) =
     (if c = sep then [] # split sep cs
      else (case split sep cs of
              [] \<Rightarrow> [[c]]
            | p # ps \<Rightarrow> (c # p) # ps))"

text \<open>\<^verbatim>\<open>sep.join(parts)\<close>.\<close>

fun join :: "pystr \<Rightarrow> pystr list \<Rightarrow> pystr" where
  "join sep [] = []"
| "join sep [p] = p"
| "join sep (p # q # ps) = p @ sep @ join sep (q # ps)"

text \<open>\<^verbatim>\<open>k in s\<close> for strings: \<open>k\<close> occurs in \<open>s\<close> as a contiguous run.\<close>

fun starts_with :: "pystr \<Rightarrow> pystr \<Rightarrow> bool" where
  "starts_with [] s = True"
| "starts_with (k # ks) [] = False"
| "starts_with (k # ks) (c # cs) = (k = c \<and> starts_with ks cs)"

fun contains :: "pystr \<Rightarrow> pystr \<Rightarrow> bool" where
  "contains k [] = (k = [])"
| "contains k (c # cs) = (starts_with k (c # cs) \<or> contains k cs)"

definition newline :: nat where
  "newline = 10"

definition comma :: nat where
  "comma = 44"

definition semicolon :: nat where
  "semicolon = 59"

section \<open>Tokenisation of the ingredient list\<close>

text \<open>
  Line 79 of \<^verbatim>\<open>analyze_ingredients\<close>:
  \<^verbatim>\<open>[item.strip() for item in input_text.replace("\n", ",").split(",") if item.strip()]\<close>.
  The empty string is the only falsy string.
\<close>

definition raw_ingredients :: "pystr \<Rightarrow> pystr list" where
  "raw_ingredients input_text =
     map strip (filter (\<lambda>item. strip item \<noteq> [])
                       (split comma (replace1 newline comma input_text)))"

text \<open>
  The same rule written from its description: replace every newline by a comma, cut at
  the commas, trim each piece, drop the empty pieces.
\<close>

fun spec_replace_newlines :: "pystr \<Rightarrow> pystr" where
  "spec_replace_newlines [] = []"
| "spec_replace_newlines (c # cs) =
     (if c = newline then comma else c) # spec_replace_newlines cs"

fun spec_cut_at_commas :: "pystr \<Rightarrow> pystr \<Rightarrow> pystr list" where
  "spec_cut_at_commas cur [] = [rev cur]"
| "spec_cut_at_commas cur (c # cs) =
     (if c = comma then rev cur # spec_cut_at_commas [] cs
      else spec_cut_at_commas (c # cur) cs)"

fun spec_trim_left :: "pystr \<Rightarrow> pystr" where
  "spec_trim_left [] = []"
| "spec_trim_left (c # cs) = (if is_space c then spec_trim_left cs else c # cs)"

definition spec_trim :: "pystr \<Rightarrow> pystr" where
  "spec_trim s = rev (spec_trim_left (rev (spec_trim_left s)))"

definition spec_tokenize :: "pystr \<Rightarrow> pystr list" where
  "spec_tokenize text =
     filter (\<lambda>p. p \<noteq> []) (map spec_trim (spec_cut_at_commas [] (spec_replace_newlines text)))"

section \<open>Dictionaries and ingredient records\<close>

text \<open>
  A Python \<^verbatim>\<open>dict\<close> keeps its keys in insertion order, and assigning to a key that is
  already present keeps the key's position. It is modelled as an association list;
  \<open>dict_set\<close> is \<^verbatim>\<open>d[k] = v\<close>, \<open>map_of\<close> is the lookup, \<open>map fst\<close> is \<^verbatim>\<open>d.keys()\<close>.
\<close>

type_synonym 'v dict = "(pystr \<times> 'v) list"

fun dict_set :: "'v dict \<Rightarrow> pystr \<Rightarrow> 'v \<Rightarrow> 'v dict" where
  "dict_set [] k v = [(k, v)]"
| "dict_set ((k', v') # d) k v =
     (if k' = k then (k, v) # d else (k', v') # dict_set d k v)"

text \<open>
  The record stored per ingredient. \<open>beneficial\<close> holds Python's \<^verbatim>\<open>True\<close>, \<^verbatim>\<open>False\<close>
  or \<^verbatim>\<open>None\<close>.
\<close>

record ingredient_info =
  beneficial :: "bool option"
  description :: pystr
  alternatives :: "pystr list"

section \<open>Loading the knowledge base\<close>

text \<open>
  \<^verbatim>\<open>csv.DictReader\<close> is outside the repository; \<^verbatim>\<open>load_ingredients\<close> is modelled on the
  rows it yields. A cell is absent (\<^verbatim>\<open>row[k]\<close> raises KeyError), \<^verbatim>\<open>None\<close> (a short row;
  \<^verbatim>\<open>None.strip()\<close> raises AttributeError) or a string. Both handlers of the function
  stop the script, so no dictionary is returned after an exception.
\<close>

datatype cell = Missing | PyNone | Cell pystr

record csv_row =
  ingredient_cell :: cell
  beneficial_cell :: cell
  description_cell :: cell
  alternatives_cell :: cell

datatype load_error = FileNotFoundError | LoadException

fun cell_strip :: "cell \<Rightarrow> load_error + pystr" where
  "cell_strip (Cell s) = Inr (strip s)"
| "cell_strip Missing = Inl LoadException"
| "cell_strip PyNone = Inl LoadException"

fun parse_alternatives :: "cell \<Rightarrow> load_error + pystr list" where
  "parse_alternatives Missing = Inl LoadException"
| "parse_alternatives PyNone = Inr []"
| "parse_alternatives (Cell s) =
     (if s = [] then Inr []
      else Inr (map strip (filter (\<lambda>alt. strip alt \<noteq> []) (split semicolon s))))"

definition load_row ::
  "(pystr \<Rightarrow> pystr) \<Rightarrow> csv_row \<Rightarrow> load_error + (pystr \<times> ingredient_info)" where
  "load_row ul row =
     (case cell_strip (ingredient_cell row) of
        Inl e \<Rightarrow> Inl e
      | Inr n \<Rightarrow>
     (case cell_strip (beneficial_cell row) of
        Inl e \<Rightarrow> Inl e
      | Inr b \<Rightarrow>
     (case cell_strip (description_cell row) of
        Inl e \<Rightarrow> Inl e
      | Inr d \<Rightarrow>
     (case parse_alternatives (alternatives_cell row) of
        Inl e \<Rightarrow> Inl e
      | Inr alts \<Rightarrow>
          Inr (lower ul n,
               \<lparr>beneficial = Some (lower ul b = str ''true''),
                description = d,
                alternatives = alts\<rparr>)))))"

fun load_rows ::
  "(pystr \<Rightarrow> pystr) \<Rightarrow> csv_row list \<Rightarrow> ingredient_info dict
     \<Rightarrow> load_error + ingredient_info dict" where
  "load_rows ul [] ingredients = Inr ingredients"
| "load_rows ul (row # rows) ingredients =
     (case load_row ul row of
        Inl e \<Rightarrow> Inl e
      | Inr (name, info) \<Rightarrow> load_rows ul rows (dict_set ingredients name info))"

text \<open>The argument is \<open>None\<close> when the file does not exist.\<close>

definition load_ingredients ::
  "(pystr \<Rightarrow> pystr) \<Rightarrow> csv_row list option \<Rightarrow> load_error + ingredient_info dict" where
  "load_ingredients ul file =
     (case file of
        None \<Rightarrow> Inl FileNotFoundError
      | Some rows \<Rightarrow> load_rows ul rows [])"

section \<open>The model service\<close>

text \<open>
  \<^verbatim>\<open>requests.post\<close> either raises or returns a response with a status code and a body.
  The exception classes are those the two handlers of \<^verbatim>\<open>ask_ollama\<close> tell apart, with
  the class hierarchy of the \<^verbatim>\<open>requests\<close> library: \<^verbatim>\<open>ConnectTimeout\<close> derives from
  \<^verbatim>\<open>ConnectionError\<close> and \<^verbatim>\<open>Timeout\<close>, \<^verbatim>\<open>ReadTimeout\<close> from \<^verbatim>\<open>Timeout\<close> only. An
  exception carries its message, \<^verbatim>\<open>str(e)\<close>.
\<close>

datatype exn_class =
  ConnectionError | ConnectTimeout | ReadTimeout | AttributeError | TypeError | OtherException

datatype exn = Exn exn_class pystr

fun is_ConnectionError :: "exn \<Rightarrow> bool" where
  "is_ConnectionError (Exn ConnectionError m) = True"
| "is_ConnectionError (Exn ConnectTimeout m) = True"
| "is_ConnectionError (Exn c m) = False"


fun exn_message :: "exn \<Rightarrow> pystr" where
  "exn_message (Exn c m) = m"

record request =
  req_model :: pystr
  req_prompt :: pystr

datatype post_result = Raises exn | Responds nat pystr

text \<open>
  The service is the environment: what the \<open>n\<close>-th call of a session gets for a request.
  Two calls with the same request may get different results.
\<close>

type_synonym service = "nat \<Rightarrow> request \<Rightarrow> post_result"

text \<open>
  \<^verbatim>\<open>json.loads\<close> is a library function; it is a parameter \<open>loads\<close> of the model. On a
  line it returns a Python value, raises \<^verbatim>\<open>JSONDecodeError\<close>, or raises another
  exception (a RecursionError on a deeply nested line, a plain ValueError on an integer
  literal beyond the digit limit), given here by its message.
\<close>

datatype json =
  JNull | JBool bool | JInt int | JFloat pystr | JStr pystr
  | JArr "json list" | JObj "(pystr \<times> json) list"

datatype loads_result = Parsed json | JSONDecodeError | LoadsRaises pystr

fun py_type_name :: "json \<Rightarrow> pystr" where
  "py_type_name JNull = str ''NoneType''"
| "py_type_name (JBool b) = str ''bool''"
| "py_type_name (JInt i) = str ''int''"
| "py_type_name (JFloat f) = str ''float''"
| "py_type_name (JStr s) = str ''str''"
| "py_type_name (JArr xs) = str ''list''"
| "py_type_name (JObj kvs) = str ''dict''"

definition apostrophe :: pystr where
  "apostrophe = [39]"

definition double_quote :: pystr where
  "double_quote = [34]"

text \<open>\<^verbatim>\<open>data.get("response", "")\<close>: only a dict has the method.\<close>

fun get_response :: "json \<Rightarrow> exn + json" where
  "get_response (JObj kvs) =
     Inr (case map_of kvs (str ''response'') of None \<Rightarrow> JStr [] | Some v \<Rightarrow> v)"
| "get_response j =
     Inl (Exn AttributeError
            (apostrophe @ py_type_name j @ apostrophe @ str '' object has no attribute ''
             @ apostrophe @ str ''get'' @ apostrophe))"

text \<open>\<^verbatim>\<open>text += v\<close>: only a string can be appended to a string.\<close>

fun append_text :: "pystr \<Rightarrow> json \<Rightarrow> exn + pystr" where
  "append_text t (JStr s) = Inr (t @ s)"
| "append_text t j =
     Inl (Exn TypeError
            (str ''can only concatenate str (not '' @ double_quote @ py_type_name j
             @ double_quote @ str '') to str''))"

text \<open>
  \<^verbatim>\<open>str.splitlines()\<close>: a line ends at a line boundary; \<^verbatim>\<open>\r\n\<close> is one boundary; there is
  no empty last line.
\<close>

definition is_linebreak :: "nat \<Rightarrow> bool" where
  "is_linebreak c \<longleftrightarrow>
     (10 \<le> c \<and> c \<le> 13) \<or> (28 \<le> c \<and> c \<le> 30) \<or> c = 133 \<or> c = 8232 \<or> c = 8233"

fun splitlines_from :: "pystr \<Rightarrow> pystr \<Rightarrow> pystr list" where
  "splitlines_from cur [] = (if cur = [] then [] else [rev cur])"
| "splitlines_from cur (c # cs) =
     (if is_linebreak c then
        (case cs of
           [] \<Rightarrow> [rev cur]
         | d # ds \<Rightarrow>
             if c = 13 \<and> d = 10 then rev cur # splitlines_from [] ds
             else rev cur # splitlines_from [] (d # ds))
      else splitlines_from (c # cur) cs)"

definition splitlines :: "pystr \<Rightarrow> pystr list" where
  "splitlines s = splitlines_from [] s"

text \<open>
  The loop of lines 22 to 30 of \<^verbatim>\<open>ask_ollama\<close>. Only \<^verbatim>\<open>JSONDecodeError\<close> is caught
  inside the loop; any other exception leaves it.
\<close>

fun accumulate :: "(pystr \<Rightarrow> loads_result) \<Rightarrow> pystr list \<Rightarrow> pystr \<Rightarrow> exn + pystr" where
  "accumulate loads [] text = Inr text"
| "accumulate loads (l # ls) text =
     (if strip l = [] then accumulate loads ls text
      else (case loads (strip l) of
              JSONDecodeError \<Rightarrow> accumulate loads ls text
            | LoadsRaises m \<Rightarrow> Inl (Exn OtherException m)
            | Parsed data \<Rightarrow>
                (case get_response data of
                   Inl e \<Rightarrow> Inl e
                 | Inr v \<Rightarrow>
                     (case append_text text v of
                        Inl e \<Rightarrow> Inl e
                      | Inr t \<Rightarrow> accumulate loads ls t))))"

text \<open>Decimal digits of a status code, as the f-string prints it.\<close>

fun str_of_nat :: "nat \<Rightarrow> pystr" where
  "str_of_nat n = (if n < 10 then [48 + n] else str_of_nat (n div 10) @ [48 + n mod 10])"

text \<open>
  The five ways \<^verbatim>\<open>ask_ollama\<close> returns, one constructor per \<^verbatim>\<open>return\<close> statement, and
  the string each one returns. In the words of the specification, \<open>ServerNotRunning\<close> is
  the ServiceUnavailable failure, \<open>NoResponse\<close> the EmptyResponse failure, \<open>ApiError\<close> and
  \<open>OtherError\<close> the ProtocolError failure.
\<close>

datatype outcome =
  ApiError nat pystr | NoResponse | Generated pystr | ServerNotRunning | OtherError pystr

definition backtick :: pystr where
  "backtick = [96]"

fun render :: "outcome \<Rightarrow> pystr" where
  "render (ApiError status body) =
     warning_sign @ str '' API Error: '' @ str_of_nat status @ str '' - '' @ body"
| "render NoResponse =
     warning_sign @ str '' No response from model (check memory or prompt length).''"
| "render (Generated text) = text"
| "render ServerNotRunning =
     cross_mark @ str '' Ollama server not running. Please run '' @ backtick
     @ str ''ollama serve'' @ backtick @ str '' first.''"
| "render (OtherError m) = warning_sign @ str '' Error: '' @ m"

text \<open>The body of the \<^verbatim>\<open>try\<close> block: it returns or raises.\<close>

definition ask_ollama_try ::
  "service \<Rightarrow> (pystr \<Rightarrow> loads_result) \<Rightarrow> nat \<Rightarrow> pystr \<Rightarrow> pystr \<Rightarrow> exn + outcome" where
  "ask_ollama_try srv loads n prompt model =
     (case srv n \<lparr>req_model = model, req_prompt = prompt\<rparr> of
        Raises e \<Rightarrow> Inl e
      | Responds status body \<Rightarrow>
          if status \<noteq> 200 then Inr (ApiError status body)
          else (case accumulate loads (splitlines (strip body)) [] of
                  Inl e \<Rightarrow> Inl e
                | Inr text \<Rightarrow> if strip text = [] then Inr NoResponse else Inr (Generated text)))"

text \<open>The two handlers, in the order of the source.\<close>

definition ask_ollama_outcome ::
  "service \<Rightarrow> (pystr \<Rightarrow> loads_result) \<Rightarrow> nat \<Rightarrow> pystr \<Rightarrow> pystr \<Rightarrow> outcome" where
  "ask_ollama_outcome srv loads n prompt model =
     (case ask_ollama_try srv loads n prompt model of
        Inr out \<Rightarrow> out
      | Inl e \<Rightarrow> if is_ConnectionError e then ServerNotRunning else OtherError (exn_message e))"

definition default_model :: pystr where
  "default_model = str ''llama3.2''"

text \<open>
  The state of a session is the list of the prompts sent so far. \<^verbatim>\<open>ask_ollama\<close> with
  the default model returns its string and the extended list.
\<close>

definition ask_ollama ::
  "service \<Rightarrow> (pystr \<Rightarrow> loads_result) \<Rightarrow> pystr list \<Rightarrow> pystr \<Rightarrow> pystr \<times> pystr list" where
  "ask_ollama srv loads sent prompt =
     (render (ask_ollama_outcome srv loads (length sent) prompt default_model), sent @ [prompt])"

section \<open>Resolving an ingredient list\<close>

definition ingredient_prompt :: "pystr \<Rightarrow> pystr" where
  "ingredient_prompt ingredient =
     str ''What can you tell me about the ingredient '' @ apostrophe @ ingredient
     @ apostrophe @ str '' in cosmetics or skincare?''"

text \<open>One pass of the loop of \<^verbatim>\<open>analyze_ingredients\<close>, lines 83 to 94.\<close>

definition analyze_step ::
  "service \<Rightarrow> (pystr \<Rightarrow> pystr) \<Rightarrow> (pystr \<Rightarrow> loads_result) \<Rightarrow> ingredient_info dict
     \<Rightarrow> pystr \<Rightarrow> ingredient_info dict \<times> pystr list
     \<Rightarrow> ingredient_info dict \<times> pystr list" where
  "analyze_step srv ul loads ingredients_db ingredient st =
     (case st of (results, sent) \<Rightarrow>
        (case map_of ingredients_db (lower ul ingredient) of
           Some info \<Rightarrow> (dict_set results ingredient info, sent)
         | None \<Rightarrow>
             (case ask_ollama srv loads sent (ingredient_prompt ingredient) of
                (ai_info, sent') \<Rightarrow>
                  (dict_set results ingredient
                     \<lparr>beneficial = None, description = ai_info, alternatives = []\<rparr>,
                   sent'))))"

fun analyze_loop ::
  "service \<Rightarrow> (pystr \<Rightarrow> pystr) \<Rightarrow> (pystr \<Rightarrow> loads_result) \<Rightarrow> ingredient_info dict
     \<Rightarrow> pystr list \<Rightarrow> ingredient_info dict \<times> pystr list
     \<Rightarrow> ingredient_info dict \<times> pystr list" where
  "analyze_loop srv ul loads ingredients_db [] st = st"
| "analyze_loop srv ul loads ingredients_db (ingredient # rest) st =
     analyze_loop srv ul loads ingredients_db rest
       (analyze_step srv ul loads ingredients_db ingredient st)"

definition analyze_ingredients ::
  "service \<Rightarrow> (pystr \<Rightarrow> pystr) \<Rightarrow> (pystr \<Rightarrow> loads_result) \<Rightarrow> pystr list \<Rightarrow> pystr
     \<Rightarrow> ingredient_info dict \<Rightarrow> ingredient_info dict \<times> pystr list" where
  "analyze_ingredients srv ul loads sent input_text ingredients_db =
     analyze_loop srv ul loads ingredients_db (raw_ingredients input_text) ([], sent)"

section \<open>The chatbot\<close>

text \<open>
  Lines 101 to 105: the first key, in the order of the dictionary, that occurs in the
  lower-cased question.
\<close>

definition find_ingredient :: "pystr \<Rightarrow> ingredient_info dict \<Rightarrow> pystr option" where
  "find_ingredient user_input_lower ingredients_db =
     find (\<lambda>ing_key. contains ing_key user_input_lower) (map fst ingredients_db)"

text \<open>Lines 109 to 117. \<^verbatim>\<open>None\<close>, \<^verbatim>\<open>False\<close> and the empty list are falsy.\<close>

definition format_answer :: "(pystr \<Rightarrow> pystr) \<Rightarrow> pystr \<Rightarrow> ingredient_info \<Rightarrow> pystr" where
  "format_answer ut found_ingredient info =
     str ''**'' @ title ut found_ingredient @ str ''**'' @ [newline, newline]
     @ (if beneficial info = Some True
        then check_mark @ str '' This ingredient is *beneficial*.'' @ [newline]
        else warning_sign @ str '' This ingredient may be *harmful or controversial*.''
             @ [newline])
     @ str ''**Description:** '' @ description info @ [newline]
     @ (if alternatives info \<noteq> []
        then str ''**Alternatives:** '' @ join (str '', '') (alternatives info) @ [newline]
        else [])"

datatype chat_error = KeyError

text \<open>
  \<^verbatim>\<open>if found_ingredient:\<close> tests the truth value of the key found: \<^verbatim>\<open>None\<close> and the
  empty string both take the \<^verbatim>\<open>else\<close> branch. \<^verbatim>\<open>ingredients_db[found_ingredient]\<close>
  raises KeyError for an absent key.
\<close>

definition chatbot_answer ::
  "service \<Rightarrow> (pystr \<Rightarrow> pystr) \<Rightarrow> (pystr \<Rightarrow> pystr) \<Rightarrow> (pystr \<Rightarrow> loads_result)
     \<Rightarrow> pystr list \<Rightarrow> pystr \<Rightarrow> ingredient_info dict \<Rightarrow> chat_error + pystr \<times> pystr list" where
  "chatbot_answer srv ul ut loads sent user_input ingredients_db =
     (case find_ingredient (lower ul user_input) ingredients_db of
        None \<Rightarrow> Inr (ask_ollama srv loads sent user_input)
      | Some found_ingredient \<Rightarrow>
          if found_ingredient \<noteq> [] then
            (case map_of ingredients_db found_ingredient of
               None \<Rightarrow> Inl KeyError
             | Some info \<Rightarrow> Inr (format_answer ut found_ingredient info, sent))
          else Inr (ask_ollama srv loads sent user_input))"

section \<open>The response assembly, from its description\<close>







section \<open>Example data\<close>

definition example_text :: pystr where
  "example_text = str ''Water, Glycerin'' @ [newline] @ str ''Parabens''"

definition blank_text :: pystr where
  "blank_text = str '' ,'' @ [newline] @ str '' , ''"



definition water_row :: csv_row where
  "water_row =
     \<lparr>ingredient_cell = Cell (str '' Water ''),
      beneficial_cell = Cell (str ''True''),
      description_cell = Cell (str ''Solvent.''),
      alternatives_cell = Cell []\<rparr>"

definition glycerin_row :: csv_row where
  "glycerin_row =
     \<lparr>ingredient_cell = Cell (str ''Glycerin''),
      beneficial_cell = Cell (str ''true''),
      description_cell = Cell (str ''Humectant.''),
      alternatives_cell = PyNone\<rparr>"

definition parabens_row :: csv_row where
  "parabens_row =
     \<lparr>ingredient_cell = Cell (str ''Parabens''),
      beneficial_cell = Cell (str ''no''),
      description_cell = Cell (str ''Preservative.''),
      alternatives_cell = Cell (str ''Phenoxyethanol; ;Sodium Benzoate'')\<rparr>"


definition water_info :: ingredient_info where
  "water_info = \<lparr>beneficial = Some True, description = str ''Solvent.'', alternatives = []\<rparr>"

definition glycerin_info :: ingredient_info where
  "glycerin_info =
     \<lparr>beneficial = Some True, description = str ''Humectant.'', alternatives = []\<rparr>"

definition parabens_info :: ingredient_info where
  "parabens_info =
     \<lparr>beneficial = Some False, description = str ''Preservative.'',
      alternatives = [str ''Phenoxyethanol'', str ''Sodium Benzoate'']\<rparr>"


definition example_db :: "ingredient_info dict" where
  "example_db =
     [(str ''water'', water_info), (str ''glycerin'', glycerin_info),
      (str ''parabens'', parabens_info)]"


text \<open>One line of a streamed answer: an object with a \<^verbatim>\<open>response\<close> entry.\<close>

definition response_line :: "pystr \<Rightarrow> pystr" where
  "response_line s =
     str ''{'' @ double_quote @ str ''response'' @ double_quote @ str '': '' @ double_quote
     @ s @ double_quote @ str ''}''"

text \<open>A line whose \<^verbatim>\<open>response\<close> entry is \<^verbatim>\<open>null\<close>.\<close>

definition null_response_line :: pystr where
  "null_response_line =
     str ''{'' @ double_quote @ str ''response'' @ double_quote @ str '': null}''"

text \<open>
  \<^verbatim>\<open>json.loads\<close> on the lines that occur in the examples; any other line, such as
  \<^verbatim>\<open>not json\<close>, is not decoded.
\<close>

definition example_lines :: "(pystr \<times> json) list" where
  "example_lines =
       [(response_line (str ''answer 0''), JObj [(str ''response'', JStr (str ''answer 0''))]),
        (response_line (str ''answer 1''), JObj [(str ''response'', JStr (str ''answer 1''))]),
        (response_line (str ''answer 2''), JObj [(str ''response'', JStr (str ''answer 2''))]),
        (response_line (str ''Gly''), JObj [(str ''response'', JStr (str ''Gly''))]),
        (response_line (str ''cerin''), JObj [(str ''response'', JStr (str ''cerin''))]),
        (response_line (str ''hi''), JObj [(str ''response'', JStr (str ''hi''))]),
        (str ''42'', JInt 42),
        (null_response_line, JObj [(str ''response'', JNull)])]"

definition loads_example :: "pystr \<Rightarrow> loads_result" where
  "loads_example line =
     (case map_of example_lines line of
        Some d \<Rightarrow> Parsed d
      | None \<Rightarrow> JSONDecodeError)"

definition srv_down :: service where
  "srv_down n r = Raises (Exn ConnectionError (str ''Connection refused''))"






definition chunked_body :: pystr where
  "chunked_body =
     response_line (str ''Gly'') @ [newline] @ str ''not json'' @ [newline, newline]
     @ response_line (str ''cerin'') @ [newline]"

definition srv_chunked :: service where
  "srv_chunked n r = Responds 200 chunked_body"





definition example_request :: request where
  "example_request = \<lparr>req_model = default_model, req_prompt = str ''hi''\<rparr>"

section \<open>Properties of the string and dictionary operations\<close>

lemma map_of_dict_set: "map_of (dict_set d k v) = (map_of d)(k \<mapsto> v)"
  by (induction d k v rule: dict_set.induct) auto



lemma spec_replace_newlines_eq: "spec_replace_newlines s = replace1 newline comma s"
  by (induction s) (auto simp: replace1_def)

lemma split_nonempty: "split sep s \<noteq> []"
  by (induction s) (auto split: list.splits)

lemma spec_cut_eq: "spec_cut_at_commas cur s = (case split comma s of p # ps \<Rightarrow> (rev cur @ p) # ps | [] \<Rightarrow> [])"
  by (induction s arbitrary: cur) (auto split: list.splits simp: split_nonempty)

lemma spec_cut_at_commas_eq: "spec_cut_at_commas [] s = split comma s"
  by (simp add: spec_cut_eq split: list.splits)

lemma spec_trim_left_eq: "spec_trim_left s = lstrip s"
  by (induction s) (auto simp: lstrip_def)

lemma spec_trim_eq: "spec_trim s = strip s"
  by (simp add: spec_trim_def strip_def rstrip_def spec_trim_left_eq lstrip_def)

lemma filter_map_strip: "map strip (filter (\<lambda>item. strip item \<noteq> []) ps) = filter (\<lambda>p. p \<noteq> []) (map strip ps)"
  by (induction ps) auto

lemma raw_ingredients_spec: "raw_ingredients text = spec_tokenize text"
  by (simp add: raw_ingredients_def spec_tokenize_def spec_replace_newlines_eq
      spec_cut_at_commas_eq filter_map_strip spec_trim_eq[abs_def])

lemma join_split: "join [sep] (split sep s) = s"
proof (induction s)
  case Nil show ?case by simp
next
  case (Cons c cs)
  show ?case
  proof (cases "split sep cs")
    case Nil with split_nonempty show ?thesis by blast
  next
    case (Cons p ps)
    with Cons.IH show ?thesis by (cases ps) auto
  qed
qed

lemma split_no_sep: "sep \<notin> set (concat (split sep s))"
  by (induction s) (auto split: list.splits)


lemma starts_with_iff: "starts_with k s \<longleftrightarrow> (\<exists>q. s = k @ q)"
  by (induction k s rule: starts_with.induct) auto

lemma contains_iff: "contains k s \<longleftrightarrow> (\<exists>p q. s = p @ k @ q)"
proof (induction s)
  case Nil
  show ?case by auto
next
  case (Cons c cs)
  show ?case
  proof
    assume "contains k (c # cs)"
    then consider "starts_with k (c # cs)" | "contains k cs" by auto
    then show "\<exists>p q. c # cs = p @ k @ q"
    proof cases
      case 1
      then obtain q where "c # cs = k @ q" by (auto simp: starts_with_iff)
      then have "c # cs = [] @ k @ q" by simp
      then show ?thesis by blast
    next
      case 2
      with Cons.IH obtain p q where "cs = p @ k @ q" by blast
      then have "c # cs = (c # p) @ k @ q" by simp
      then show ?thesis by blast
    qed
  next
    assume "\<exists>p q. c # cs = p @ k @ q"
    then obtain p q where pq: "c # cs = p @ k @ q" by blast
    show "contains k (c # cs)"
    proof (cases p)
      case Nil
      with pq have "starts_with k (c # cs)" by (auto simp: starts_with_iff)
      then show ?thesis by simp
    next
      case (Cons a p')
      with pq have "cs = p' @ k @ q" by simp
      with Cons.IH have "contains k cs" by blast
      then show ?thesis by simp
    qed
  qed
qed

section \<open>Properties of the resolution loop\<close>

lemma analyze_loop_append:
  "analyze_loop srv ul loads db (xs @ ys) st = analyze_loop srv ul loads db ys (analyze_loop srv ul loads db xs st)"
  by (induction xs arbitrary: st) auto



lemma analyze_step_other:
  "k \<noteq> c \<Longrightarrow> map_of (fst (analyze_step srv ul loads db c st)) k = map_of (fst st) k"
  by (auto simp: analyze_step_def map_of_dict_set ask_ollama_def split: prod.splits option.splits)

lemma analyze_step_known:
  "map_of db (lower ul c) = Some info \<Longrightarrow>
   map_of (fst (analyze_step srv ul loads db c st)) c = Some info \<and> snd (analyze_step srv ul loads db c st) = snd st"
  by (auto simp: analyze_step_def map_of_dict_set split: prod.splits)




lemma analyze_loop_other:
  "k \<notin> set cs \<Longrightarrow> map_of (fst (analyze_loop srv ul loads db cs st)) k = map_of (fst st) k"
  by (induction cs arbitrary: st) (auto simp: analyze_step_other)

lemma analyze_loop_last:
  "c \<notin> set post \<Longrightarrow>
   map_of (fst (analyze_loop srv ul loads db (pre @ c # post) st)) c =
   map_of (fst (analyze_step srv ul loads db c (analyze_loop srv ul loads db pre st))) c"
  by (simp add: analyze_loop_append analyze_loop_other)

lemma analyze_loop_all_known:
  "\<forall>c\<in>set cs. map_of db (lower ul c) \<noteq> None \<Longrightarrow>
   snd (analyze_loop srv ul loads db cs st) = snd st"
proof (induction cs arbitrary: st)
  case Nil
  show ?case by simp
next
  case (Cons c cs)
  then obtain info where "map_of db (lower ul c) = Some info" by auto
  then have "snd (analyze_step srv ul loads db c st) = snd st"
    by (simp add: analyze_step_known)
  with Cons show ?case by simp
qed

lemma strip_all_space: "\<forall>c\<in>set s. is_space c \<Longrightarrow> strip s = []"
proof -
  assume "\<forall>c\<in>set s. is_space c"
  then have "lstrip s = []" by (simp add: lstrip_def)
  then show ?thesis by (simp add: strip_def rstrip_def)
qed

lemma split_pieces_subset: "p \<in> set (split sep s) \<Longrightarrow> set p \<subseteq> set s"
proof (induction s arbitrary: p)
  case Nil
  then show ?case by simp
next
  case (Cons c cs)
  show ?case
  proof (cases "split sep cs")
    case Nil
    with split_nonempty show ?thesis by blast
  next
    case (Cons q qs)
    have q: "set q \<subseteq> set cs" using Cons.IH[of q] Cons by simp
    have qs: "\<And>r. r \<in> set qs \<Longrightarrow> set r \<subseteq> set cs" using Cons.IH Cons by simp
    from Cons.prems Cons have "p = [] \<or> p = q \<or> p = c # q \<or> p \<in> set qs"
      by (auto split: if_splits)
    with q qs show ?thesis by auto
  qed
qed

lemma raw_ingredients_blank:
  assumes "\<forall>c\<in>set text. is_space c \<or> c = comma \<or> c = newline"
  shows "raw_ingredients text = []"
proof -
  have "strip p = []" if "p \<in> set (split comma (replace1 newline comma text))" for p
  proof -
    have "set p \<subseteq> set (replace1 newline comma text)" using that by (rule split_pieces_subset)
    moreover have "comma \<notin> set p" using that split_no_sep[of comma "replace1 newline comma text"] by auto
    ultimately have "\<forall>c\<in>set p. is_space c"
      using assms by (auto simp: replace1_def split: if_splits)
    then show ?thesis by (rule strip_all_space)
  qed
  then have "filter (\<lambda>item. strip item \<noteq> []) (split comma (replace1 newline comma text)) = []"
    by (simp add: filter_empty_conv)
  then show ?thesis by (simp add: raw_ingredients_def)
qed

section \<open>Properties of the loader\<close>

lemma load_row_beneficial:
  "load_row ul row = Inr (name, info) \<Longrightarrow> beneficial info \<noteq> None"
  by (auto simp: load_row_def split: sum.splits)

lemma dict_set_values: "snd ` set (dict_set d k v) \<subseteq> insert v (snd ` set d)"
  by (induction d k v rule: dict_set.induct) auto

lemma load_rows_beneficial:
  "load_rows ul rows acc = Inr db \<Longrightarrow> \<forall>info\<in>snd ` set acc. beneficial info \<noteq> None \<Longrightarrow>
   \<forall>info\<in>snd ` set db. beneficial info \<noteq> None"
proof (induction rows arbitrary: acc)
  case Nil
  then show ?case by simp
next
  case (Cons row rows)
  from Cons.prems(1) obtain name info where r: "load_row ul row = Inr (name, info)"
    and l: "load_rows ul rows (dict_set acc name info) = Inr db"
    by (auto split: sum.splits)
  have "\<forall>i\<in>snd ` set (dict_set acc name info). beneficial i \<noteq> None"
    using dict_set_values[of acc name info] load_row_beneficial[OF r] Cons.prems(2) by blast
  with Cons.IH[OF l] show ?case by blast
qed

section \<open>Evaluating the examples\<close>

lemmas string_eval =
  str_def response_line_def double_quote_def apostrophe_def backtick_def newline_def comma_def
  semicolon_def strip_def lstrip_def rstrip_def is_space_def lower_def is_ascii_def
  ascii_lower_def is_ascii_upper_def replace1_def

lemma example_tokens:
  "raw_ingredients example_text = [str ''Water'', str ''Glycerin'', str ''Parabens'']"
  by (simp add: example_text_def raw_ingredients_def string_eval)



lemma lower_Water: "lower ul (str ''Water'') = str ''water''"
  by (simp add: string_eval)

lemma lower_water: "lower ul (str ''water'') = str ''water''"
  by (simp add: string_eval)

lemma lower_Glycerin: "lower ul (str ''Glycerin'') = str ''glycerin''"
  by (simp add: string_eval)

lemma lower_Parabens: "lower ul (str ''Parabens'') = str ''parabens''"
  by (simp add: string_eval)


lemma lower_question: "lower ul (str ''Is Glycerin safe?'') = str ''is glycerin safe?''"
  by (simp add: string_eval)

lemma example_db_lookups:
  "map_of example_db (str ''water'') = Some water_info"
  "map_of example_db (str ''glycerin'') = Some glycerin_info"
  "map_of example_db (str ''parabens'') = Some parabens_info"
  "map_of example_db (str ''retinol'') = None"
  "map_of example_db (str ''Water'') = None"
  by (simp_all add: example_db_def str_def)

lemma load_example:
  "load_ingredients ul (Some [water_row, glycerin_row, parabens_row]) = Inr example_db"
  by (simp add: load_ingredients_def load_row_def water_row_def glycerin_row_def
      parabens_row_def example_db_def water_info_def glycerin_info_def parabens_info_def
      string_eval)


lemma down_any:
  "ask_ollama srv_down loads sent p = (render ServerNotRunning, sent @ [p])"
  by (simp add: ask_ollama_def ask_ollama_outcome_def ask_ollama_try_def srv_down_def)





lemma load_ingredients_flags:
  assumes "load_ingredients ul file = Inr kb"
  shows "\<forall>info\<in>snd ` set kb. beneficial info = Some True \<or> beneficial info = Some False"
proof -
  from assms obtain rows where "load_rows ul rows [] = Inr kb"
    by (auto simp: load_ingredients_def split: option.splits)
  then have "\<forall>i\<in>snd ` set kb. beneficial i \<noteq> None"
    by (rule load_rows_beneficial) simp
  then show ?thesis by auto
qed


lemma analyze_last_known:
  assumes sp: "raw_ingredients text = pre @ c # post" and last: "c \<notin> set post"
    and hit: "map_of db (lower ul c) = Some info"
  shows "map_of (fst (analyze_ingredients srv ul loads sent text db)) c = Some info"
  using analyze_loop_last[OF last, of srv ul loads db pre "([], sent)"]
    analyze_step_known[OF hit, of srv loads "analyze_loop srv ul loads db pre ([], sent)"]
  by (simp add: analyze_ingredients_def sp)

section \<open>Tokenisation and resolution: the claims\<close>

text \<open>
  C3. Tokenisation: the candidates of a text are obtained by replacing newlines with
  commas, cutting at the commas, trimming each piece and dropping the empty pieces, in
  the order of the input. Cutting loses nothing (joining the pieces with commas gives
  the text back) and no piece contains a comma. The text \<^verbatim>\<open>Water, Glycerin\nParabens\<close>
  has the candidates Water, Glycerin, Parabens.
\<close>

theorem tokenization_rule:
  "raw_ingredients text = spec_tokenize text
   \<and> join [comma] (split comma (replace1 newline comma text)) = replace1 newline comma text
   \<and> comma \<notin> set (concat (split comma (replace1 newline comma text)))
   \<and> raw_ingredients (str ''Water, Glycerin'' @ [newline] @ str ''Parabens'') =
       [str ''Water'', str ''Glycerin'', str ''Parabens'']"
proof (intro conjI)
  show "raw_ingredients text = spec_tokenize text"
    by (rule raw_ingredients_spec)
  show "join [comma] (split comma (replace1 newline comma text)) = replace1 newline comma text"
    by (rule join_split)
  show "comma \<notin> set (concat (split comma (replace1 newline comma text)))"
    by (rule split_no_sep)
  show "raw_ingredients (str ''Water, Glycerin'' @ [newline] @ str ''Parabens'') =
          [str ''Water'', str ''Glycerin'', str ''Parabens'']"
    using example_tokens by (simp only: example_text_def)
qed

text \<open>
  C10. A text made of whitespace, commas and newlines only has no candidates: the result
  is empty and no prompt is sent.
\<close>

theorem blank_input_resolves_to_nothing:
  assumes "\<forall>c\<in>set text. is_space c \<or> c = comma \<or> c = newline"
  shows "analyze_ingredients srv ul loads sent text db = ([], sent)"
  using raw_ingredients_blank[OF assms] by (simp add: analyze_ingredients_def)

theorem blank_input_resolves_to_nothing_witness:
  "\<forall>ul. set blank_text = {32, comma, newline}
     \<and> is_space 32
     \<and> analyze_ingredients srv_down ul loads_example [] blank_text example_db = ([], [])"
proof
  fix ul
  have s: "set blank_text = {32, comma, newline}"
    by (auto simp: blank_text_def string_eval)
  have sp: "is_space 32"
    by (simp add: is_space_def)
  have h: "\<forall>c\<in>set blank_text. is_space c \<or> c = comma \<or> c = newline"
    unfolding s using sp by simp
  from s sp blank_input_resolves_to_nothing[OF h]
  show "set blank_text = {32, comma, newline}
     \<and> is_space 32
     \<and> analyze_ingredients srv_down ul loads_example [] blank_text example_db = ([], [])"
    by blast
qed

text \<open>
  C1. When every candidate of the text is in the knowledge base, the result holds for
  each candidate, under the candidate as it was typed, the record stored under its
  lower-cased form, and no prompt is sent. When the knowledge base was built by
  \<open>load_ingredients\<close>, the flag of each such record is true or false.
\<close>

theorem known_ingredients_resolve_to_stored_records:
  assumes "\<forall>c\<in>set (raw_ingredients text). map_of db (lower ul c) \<noteq> None"
  shows "(\<forall>c\<in>set (raw_ingredients text).
            map_of (fst (analyze_ingredients srv ul loads sent text db)) c =
              map_of db (lower ul c))
         \<and> snd (analyze_ingredients srv ul loads sent text db) = sent
         \<and> (load_ingredients ul file = Inr db \<longrightarrow>
              (\<forall>c\<in>set (raw_ingredients text).
                 \<exists>info. map_of (fst (analyze_ingredients srv ul loads sent text db)) c = Some info
                   \<and> (beneficial info = Some True \<or> beneficial info = Some False)))"
proof -
  let ?cs = "raw_ingredients text"
  let ?res = "fst (analyze_ingredients srv ul loads sent text db)"
  have rec: "map_of ?res c = map_of db (lower ul c)" if c: "c \<in> set ?cs" for c
  proof -
    from c obtain pre post where sp: "?cs = pre @ c # post" and last: "c \<notin> set post"
      by (auto dest: split_list_last)
    from assms c obtain info where info: "map_of db (lower ul c) = Some info" by auto
    from analyze_last_known[OF sp last info] info show ?thesis by simp
  qed
  have quiet: "snd (analyze_ingredients srv ul loads sent text db) = sent"
    using analyze_loop_all_known[OF assms, of srv loads "([], sent)"]
    by (simp add: analyze_ingredients_def)
  have flags: "\<exists>info. map_of ?res c = Some info
                 \<and> (beneficial info = Some True \<or> beneficial info = Some False)"
    if ld: "load_ingredients ul file = Inr db" and c: "c \<in> set ?cs" for c
  proof -
    from assms c obtain info where info: "map_of db (lower ul c) = Some info" by auto
    then have "info \<in> snd ` set db" by (force dest: map_of_SomeD)
    with load_ingredients_flags[OF ld]
    have "beneficial info = Some True \<or> beneficial info = Some False" by blast
    with rec[OF c] info show ?thesis by simp
  qed
  from rec quiet flags show ?thesis by blast
qed

theorem known_ingredients_resolve_to_stored_records_witness:
  "\<forall>ul. raw_ingredients example_text = [str ''Water'', str ''Glycerin'', str ''Parabens'']
     \<and> map_of example_db (lower ul (str ''Water'')) = Some water_info
     \<and> map_of example_db (lower ul (str ''Glycerin'')) = Some glycerin_info
     \<and> map_of example_db (lower ul (str ''Parabens'')) = Some parabens_info
     \<and> load_ingredients ul (Some [water_row, glycerin_row, parabens_row]) = Inr example_db
     \<and> map_of (fst (analyze_ingredients srv_down ul loads_example [] example_text example_db))
          (str ''Water'') = Some water_info
     \<and> map_of example_db (str ''Water'') = None
     \<and> beneficial water_info = Some True
     \<and> snd (analyze_ingredients srv_down ul loads_example [] example_text example_db) = []"
proof
  fix ul
  have w: "map_of example_db (lower ul (str ''Water'')) = Some water_info"
    by (simp add: lower_Water example_db_lookups)
  have g: "map_of example_db (lower ul (str ''Glycerin'')) = Some glycerin_info"
    by (simp add: lower_Glycerin example_db_lookups)
  have p: "map_of example_db (lower ul (str ''Parabens'')) = Some parabens_info"
    by (simp add: lower_Parabens example_db_lookups)
  have h: "\<forall>c\<in>set (raw_ingredients example_text). map_of example_db (lower ul c) \<noteq> None"
    unfolding example_tokens using w g p by simp
  have m: "str ''Water'' \<in> set (raw_ingredients example_text)"
    unfolding example_tokens by simp
  have n: "map_of example_db (str ''Water'') = None"
    by (rule example_db_lookups)
  have b: "beneficial water_info = Some True"
    by (simp add: water_info_def)
  note inst = known_ingredients_resolve_to_stored_records[OF h, of srv_down loads_example "[]"]
  from inst m w
  have r: "map_of (fst (analyze_ingredients srv_down ul loads_example [] example_text example_db))
          (str ''Water'') = Some water_info"
    by metis
  from inst
  have q: "snd (analyze_ingredients srv_down ul loads_example [] example_text example_db) = []"
    by blast
  from example_tokens w g p load_example[of ul] r n b q
  show "raw_ingredients example_text = [str ''Water'', str ''Glycerin'', str ''Parabens'']
     \<and> map_of example_db (lower ul (str ''Water'')) = Some water_info
     \<and> map_of example_db (lower ul (str ''Glycerin'')) = Some glycerin_info
     \<and> map_of example_db (lower ul (str ''Parabens'')) = Some parabens_info
     \<and> load_ingredients ul (Some [water_row, glycerin_row, parabens_row]) = Inr example_db
     \<and> map_of (fst (analyze_ingredients srv_down ul loads_example [] example_text example_db))
          (str ''Water'') = Some water_info
     \<and> map_of example_db (str ''Water'') = None
     \<and> beneficial water_info = Some True
     \<and> snd (analyze_ingredients srv_down ul loads_example [] example_text example_db) = []"
    by blast
qed

lemma non_ascii_candidate:
  assumes "ul [201] = [233]"
  shows "analyze_ingredients srv_down ul loads [] [201] [([201], r)] =
           ([([201], \<lparr>beneficial = None, description = render ServerNotRunning,
                      alternatives = []\<rparr>)],
            [ingredient_prompt [201]])"
proof -
  have t: "raw_ingredients [201] = [[201]]"
    by (simp add: raw_ingredients_def string_eval)
  have l: "lower ul [201] = [233]"
    using assms by (simp add: lower_def is_ascii_def)
  show ?thesis
    unfolding analyze_ingredients_def t
    by (simp add: analyze_step_def l down_any)
qed











section \<open>The response assembly: properties and claims\<close>








lemma loads_example_lines:
  "loads_example (response_line (str ''Gly'')) = Parsed (JObj [(str ''response'', JStr (str ''Gly''))])"
  "loads_example (str ''not json'') = JSONDecodeError"
  "loads_example (response_line (str ''cerin'')) =
     Parsed (JObj [(str ''response'', JStr (str ''cerin''))])"
  "loads_example (response_line (str ''hi'')) = Parsed (JObj [(str ''response'', JStr (str ''hi''))])"
  "loads_example (str ''42'') = Parsed (JInt 42)"
  by (simp_all add: loads_example_def example_lines_def null_response_line_def string_eval)









lemma chunked_outcome:
  "ask_ollama_outcome srv_chunked loads_example 0 (str ''hi'') default_model =
     Generated (str ''Glycerin'')"
proof -
  have l: "splitlines (strip chunked_body) =
      [response_line (str ''Gly''), str ''not json'', [], response_line (str ''cerin'')]"
    by (simp add: chunked_body_def splitlines_def is_linebreak_def string_eval)
  have s: "strip (response_line (str ''Gly'')) = response_line (str ''Gly'')"
    "strip (str ''not json'') = str ''not json''"
    "strip (response_line (str ''cerin'')) = response_line (str ''cerin'')"
    "strip [] = []"
    by (simp_all add: string_eval)
  have n: "response_line (str ''Gly'') \<noteq> []" "str ''not json'' \<noteq> []"
    "response_line (str ''cerin'') \<noteq> []"
    by (simp_all add: response_line_def str_def)
  have g: "str ''Gly'' @ str ''cerin'' = str ''Glycerin''" "strip (str ''Glycerin'') \<noteq> []"
    by (simp_all add: string_eval)
  show ?thesis
    by (simp add: ask_ollama_outcome_def ask_ollama_try_def srv_chunked_def l s n g
        loads_example_lines)
qed



section \<open>The chatbot and the failures of the model: properties and claims\<close>





lemma glycerin_question:
  "chatbot_answer srv ul ut loads sent (str ''Is Glycerin safe?'') example_db =
     Inr (str ''**Glycerin**'' @ [newline, newline] @ check_mark
          @ str '' This ingredient is *beneficial*.'' @ [newline]
          @ str ''**Description:** Humectant.'' @ [newline], sent)"
proof -
  have f: "find_ingredient (str ''is glycerin safe?'') example_db = Some (str ''glycerin'')"
    by (simp add: find_ingredient_def example_db_def str_def)
  have t: "title ut (str ''glycerin'') = str ''Glycerin''"
    by (simp add: title_def is_ascii_def ascii_upper_def ascii_lower_def is_ascii_lower_def
        is_ascii_upper_def is_ascii_cased_def str_def)
  have n: "str ''glycerin'' \<noteq> []" by (simp add: str_def)
  have a: "format_answer ut (str ''glycerin'') glycerin_info =
      str ''**Glycerin**'' @ [newline, newline] @ check_mark
          @ str '' This ingredient is *beneficial*.'' @ [newline]
          @ str ''**Description:** Humectant.'' @ [newline]"
    by (simp add: format_answer_def t glycerin_info_def) (simp add: str_def)
  show ?thesis
    by (simp add: chatbot_answer_def lower_question f n example_db_lookups a)
qed














end
